theory Spec2Isabelle
  imports Complex_Main
begin

section \<open>The agent service: lore retrieval tool and liveness responder\<close>

text \<open>
  A shallow embedding of \<^verbatim>\<open>agent-service/rag_tool.py\<close> (class \<^verbatim>\<open>LoreTool\<close>) and of
  the class \<^verbatim>\<open>HealthHandler\<close> of \<^verbatim>\<open>agent-service/main.py\<close>.

  The tool talks to the outside through three things: the process environment
  (\<^verbatim>\<open>os.getenv\<close>), the logger \<^verbatim>\<open>rag-tool\<close>, and one HTTP call made with the aiohttp
  client. The environment is a map, the log and the calls made are fields of an
  explicit state that every function takes and returns, and the backend is a
  function from the request that was sent to what the client observes for it.
\<close>

subsection \<open>Python values\<close>

text \<open>
  The values \<^verbatim>\<open>response.json()\<close> can return, and the value passed as \<^verbatim>\<open>json=\<close>.
  A dict is an association list in insertion order, read with \<open>map_of\<close>; a float
  is the real number it denotes, or one of the three special values.
\<close>

datatype pyfloat = Finite real | Infinity bool | NaN

datatype json =
    JNull
  | JBool bool
  | JInt int
  | JFloat pyfloat
  | JString string
  | JArray "json list"
  | JObject "(string \<times> json) list"

text \<open>Python's truth value of an object, as \<^verbatim>\<open>not context\<close> tests it.\<close>

fun truthy :: "json \<Rightarrow> bool" where
  "truthy JNull = False"
| "truthy (JBool b) = b"
| "truthy (JInt n) = (n \<noteq> 0)"
| "truthy (JFloat f) = (case f of Finite r \<Rightarrow> r \<noteq> 0 | Infinity _ \<Rightarrow> True | NaN \<Rightarrow> True)"
| "truthy (JString s) = (s \<noteq> [])"
| "truthy (JArray xs) = (xs \<noteq> [])"
| "truthy (JObject kvs) = (kvs \<noteq> [])"

text \<open>\<^verbatim>\<open>type(v).__name__\<close>, which the message of an AttributeError quotes.\<close>

fun type_name :: "json \<Rightarrow> string" where
  "type_name JNull = ''NoneType''"
| "type_name (JBool _) = ''bool''"
| "type_name (JInt _) = ''int''"
| "type_name (JFloat _) = ''float''"
| "type_name (JString _) = ''str''"
| "type_name (JArray _) = ''list''"
| "type_name (JObject _) = ''dict''"

text \<open>
  An exception object: the name of its class and the text \<^verbatim>\<open>str(e)\<close>. Every
  exception of the model is an instance of \<^verbatim>\<open>Exception\<close>: the errors the HTTP client
  raises for a failed connection, a timeout or an undecodable body, and the
  AttributeError below.
\<close>

datatype exn = Exn (exn_class: string) (exn_str: string)

text \<open>
  \<^verbatim>\<open>data.get(key, default)\<close>. Only a dict has the method; on any other value the
  attribute lookup raises.
\<close>

fun dict_get :: "json \<Rightarrow> string \<Rightarrow> json \<Rightarrow> exn + json" where
  "dict_get (JObject kvs) key dflt =
     Inr (case map_of kvs key of None \<Rightarrow> dflt | Some v \<Rightarrow> v)"
| "dict_get v key dflt =
     Inl (Exn ''AttributeError''
            ([CHR 0x27] @ type_name v @ [CHR 0x27] @ '' object has no attribute '' @
             [CHR 0x27] @ ''get'' @ [CHR 0x27]))"

text \<open>Decimal text of an integer, as an f-string renders an \<^verbatim>\<open>int\<close>.\<close>

fun str_nat :: "nat \<Rightarrow> string" where
  "str_nat n =
     (if n < 10 then [''0123456789'' ! n]
      else str_nat (n div 10) @ [''0123456789'' ! (n mod 10)])"

definition str_int :: "int \<Rightarrow> string" where
  "str_int i = (if i < 0 then CHR ''-'' # str_nat (nat (- i)) else str_nat (nat i))"

text \<open>
  A replacement field \<^verbatim>\<open>{v}\<close> of an f-string. A \<^verbatim>\<open>str\<close> is inserted as it is; for
  any other value the text is what the builtin \<^verbatim>\<open>str\<close> gives, which is not code of
  the repository and is the parameter \<open>py_str\<close>.
\<close>

fun fmt :: "(json \<Rightarrow> string) \<Rightarrow> json \<Rightarrow> string" where
  "fmt py_str (JString s) = s"
| "fmt py_str v = py_str v"

text \<open>\<^verbatim>\<open>{self.api_secret}\<close>: the secret is a \<^verbatim>\<open>str\<close> or \<^verbatim>\<open>None\<close>.\<close>

fun fmt_opt :: "string option \<Rightarrow> string" where
  "fmt_opt None = ''None''"
| "fmt_opt (Some s) = s"

subsection \<open>Environment, log and HTTP client\<close>

type_synonym environ = "string \<rightharpoonup> string"

text \<open>
  \<^verbatim>\<open>os.getenv(key, default=None)\<close>: called without a default the result is a
  \<^verbatim>\<open>str\<close> or \<^verbatim>\<open>None\<close>, called with a \<^verbatim>\<open>str\<close> default it is a \<^verbatim>\<open>str\<close>.
\<close>

definition getenv :: "environ \<Rightarrow> string \<Rightarrow> string option" where
  "getenv env key = env key"

definition getenv_default :: "environ \<Rightarrow> string \<Rightarrow> string \<Rightarrow> string" where
  "getenv_default env key dflt = (case env key of None \<Rightarrow> dflt | Some v \<Rightarrow> v)"

datatype level = INFO | ERROR

text \<open>The keyword arguments of \<^verbatim>\<open>session.post\<close>; the timeout is in seconds.\<close>

record request =
  http_method :: string
  url :: string
  json_body :: json
  headers :: "(string \<times> string) list"
  timeout :: real

text \<open>
  What the client observes of a response: the status, and what awaiting
  \<^verbatim>\<open>response.text()\<close> and \<^verbatim>\<open>response.json()\<close> gives, a value or an exception (the
  body stalls, is not valid JSON, has the wrong content type).
\<close>

record response =
  resp_status :: int
  resp_text :: "exn + string"
  resp_json :: "exn + json"

text \<open>
  Entering \<^verbatim>\<open>session.post(...)\<close> either raises (no connection, timeout before the
  status line) or binds a response.
\<close>

datatype post_outcome = PostRaises exn | Responds response

type_synonym backend = "request \<Rightarrow> post_outcome"

text \<open>The effects of the tool: records passed to the logger and calls of \<^verbatim>\<open>session.post\<close>.\<close>

record world =
  logged :: "(level \<times> string) list"
  sent :: "request list"

definition logger_info :: "string \<Rightarrow> world \<Rightarrow> world" where
  "logger_info msg w = w\<lparr>logged := logged w @ [(INFO, msg)]\<rparr>"

definition logger_error :: "string \<Rightarrow> world \<Rightarrow> world" where
  "logger_error msg w = w\<lparr>logged := logged w @ [(ERROR, msg)]\<rparr>"

subsection \<open>LoreTool\<close>

record LoreTool =
  api_url :: string
  api_secret :: "string option"

definition LoreTool_init :: "environ \<Rightarrow> LoreTool" where
  "LoreTool_init env =
     \<lparr> api_url = getenv_default env ''INTERNAL_API_URL'' ''http://localhost:3000/api/internal/rag'',
       api_secret = getenv env ''INTERNAL_API_SECRET'' \<rparr>"

text \<open>
  The arguments \<^verbatim>\<open>lookup_lore\<close> passes to \<^verbatim>\<open>session.post\<close>: the URL of the tool, the
  dict given as \<^verbatim>\<open>json=\<close>, the one header, and \<^verbatim>\<open>timeout=5.0\<close>.
\<close>

definition post_args :: "LoreTool \<Rightarrow> string \<Rightarrow> string \<Rightarrow> request" where
  "post_args self query spoiler_mode =
     \<lparr> http_method = ''POST'',
       url = api_url self,
       json_body = JObject [(''query'', JString query), (''spoilerMode'', JString spoiler_mode)],
       headers = [(''Authorization'', ''Bearer '' @ fmt_opt (api_secret self))],
       timeout = 5 \<rparr>"

text \<open>
  The statements of \<^verbatim>\<open>lookup_lore\<close> inside \<^verbatim>\<open>try\<close>. The result is \<open>Inl e\<close> where the
  source leaves the block with the exception \<open>e\<close>: when \<^verbatim>\<open>session.post\<close> raises, when
  reading the body raises, when \<^verbatim>\<open>data\<close> has no method \<^verbatim>\<open>get\<close>. Leaving the two
  \<^verbatim>\<open>async with\<close> blocks releases the connection and closes the session, and is
  taken to complete.
\<close>

definition lookup_lore_try ::
  "(json \<Rightarrow> string) \<Rightarrow> backend \<Rightarrow> LoreTool \<Rightarrow> string \<Rightarrow> string \<Rightarrow> world
     \<Rightarrow> (exn + string) \<times> world" where
  "lookup_lore_try py_str backend self query spoiler_mode w =
     (let req = post_args self query spoiler_mode;
          w1 = w\<lparr>sent := sent w @ [req]\<rparr>
      in case backend req of
           PostRaises e \<Rightarrow> (Inl e, w1)
         | Responds response \<Rightarrow>
             if resp_status response \<noteq> 200 then
               (case resp_text response of
                  Inl e \<Rightarrow> (Inl e, w1)
                | Inr error_text \<Rightarrow>
                    (Inr ''I cannot access the archives at this moment. My connection is hazy.'',
                     logger_error (''RAG API Error ('' @ str_int (resp_status response) @ ''): ''
                                   @ error_text) w1))
             else
               (case resp_json response of
                  Inl e \<Rightarrow> (Inl e, w1)
                | Inr data \<Rightarrow>
                    (case dict_get data ''context'' (JString []) of
                       Inl e \<Rightarrow> (Inl e, w1)
                     | Inr context \<Rightarrow>
                         if \<not> truthy context then
                           (Inr ''The archives are silent on this matter. I find no records matching your query.'',
                            w1)
                         else
                           (Inr (''FOUND ARCHIVE RECORDS:'' @ [CHR 0x0A] @ fmt py_str context),
                            w1))))"

text \<open>
  A parameter with a default value: \<open>None\<close> is the call that leaves the argument out.
\<close>

definition param :: "'a option \<Rightarrow> 'a \<Rightarrow> 'a" where
  "param arg dflt = (case arg of None \<Rightarrow> dflt | Some v \<Rightarrow> v)"

text \<open>
  The method \<^verbatim>\<open>lookup_lore(self, query, spoiler_mode="S1")\<close>. The handler
  \<^verbatim>\<open>except Exception\<close> turns an exception of the block into the fixed text. The
  result is a sum so that a raise reaching the caller would be \<open>Inl\<close>; the tool object
  is returned as the call leaves it.
\<close>

definition lookup_lore ::
  "(json \<Rightarrow> string) \<Rightarrow> backend \<Rightarrow> LoreTool \<Rightarrow> string \<Rightarrow> string option \<Rightarrow> world
     \<Rightarrow> (exn + string) \<times> LoreTool \<times> world" where
  "lookup_lore py_str backend self query spoiler_mode_arg w =
     (let spoiler_mode = param spoiler_mode_arg ''S1'';
          w0 = logger_info (''Looking up lore: '' @ query @ '' [Mode: '' @ spoiler_mode @ '']'') w
      in case lookup_lore_try py_str backend self query spoiler_mode w0 of
           (Inr text, w1) \<Rightarrow> (Inr text, self, w1)
         | (Inl e, w1) \<Rightarrow>
             (Inr ''A disturbance in the Mesh prevents me from accessing the archives.'',
              self,
              logger_error (''Failed to query RAG API: '' @ exn_str e) w1))"

subsection \<open>HealthHandler\<close>

text \<open>
  \<^verbatim>\<open>HealthHandler\<close> extends \<^verbatim>\<open>BaseHTTPRequestHandler\<close> of Python's \<^verbatim>\<open>http.server\<close>. The
  base class parses the request line and calls the method named \<^verbatim>\<open>do_\<close> followed by
  the request's command, or answers 501 when the handler has no such method. The
  model starts from a parsed HTTP/1.x request and builds the reply that the
  handler writes: status line, headers in order, body, and the lines passed to
  the access log.
\<close>

record http_request =
  command :: string
  path :: string

record reply =
  reply_status :: "int option"
  reply_headers :: "(string \<times> string) list"
  reply_body :: string
  access_log :: "string list"

text \<open>
  What the base class takes from outside while it answers one request: the
  server's version string, the current date, and the HTML page it renders for an
  error reply.
\<close>

record server_env =
  version_string :: string
  date_time_string :: string
  error_content :: string

definition empty_reply :: reply where
  "empty_reply = \<lparr> reply_status = None, reply_headers = [], reply_body = [], access_log = [] \<rparr>"

text \<open>\<^verbatim>\<open>HealthHandler.log_message\<close>: the override is \<^verbatim>\<open>pass\<close>.\<close>

definition log_message :: "string \<Rightarrow> reply \<Rightarrow> reply" where
  "log_message line r = r"

definition send_header :: "string \<Rightarrow> string \<Rightarrow> reply \<Rightarrow> reply" where
  "send_header keyword v r = r\<lparr>reply_headers := reply_headers r @ [(keyword, v)]\<rparr>"

text \<open>
  \<^verbatim>\<open>send_response\<close> of the base class: logs the request through \<^verbatim>\<open>log_message\<close>,
  writes the status line, then the headers Server and Date.
\<close>

definition send_response :: "server_env \<Rightarrow> http_request \<Rightarrow> int \<Rightarrow> reply \<Rightarrow> reply" where
  "send_response srv req code r =
     send_header ''Date'' (date_time_string srv)
       (send_header ''Server'' (version_string srv)
         ((log_message (command req @ '' '' @ path req @ '' '' @ str_int code) r)
            \<lparr>reply_status := Some code\<rparr>))"

definition end_headers :: "reply \<Rightarrow> reply" where
  "end_headers r = r"

definition wfile_write :: "string \<Rightarrow> reply \<Rightarrow> reply" where
  "wfile_write bytes r = r\<lparr>reply_body := reply_body r @ bytes\<rparr>"

text \<open>
  \<^verbatim>\<open>send_error\<close> of the base class, for a code that carries a body: the reply closes
  the connection and carries an HTML page, which is left out for HEAD.
\<close>

definition send_error :: "server_env \<Rightarrow> http_request \<Rightarrow> int \<Rightarrow> reply \<Rightarrow> reply" where
  "send_error srv req code r =
     (let body = error_content srv;
          r1 = log_message (''code '' @ str_int code) r;
          r2 = send_response srv req code r1;
          r3 = send_header ''Connection'' ''close'' r2;
          r4 = send_header ''Content-Type'' ''text/html;charset=utf-8'' r3;
          r5 = send_header ''Content-Length'' (str_int (int (length body))) r4;
          r6 = end_headers r5
      in if command req \<noteq> ''HEAD'' \<and> body \<noteq> [] then wfile_write body r6 else r6)"

text \<open>\<^verbatim>\<open>HealthHandler.do_GET\<close>.\<close>

definition do_GET :: "server_env \<Rightarrow> http_request \<Rightarrow> reply \<Rightarrow> reply" where
  "do_GET srv req r =
     wfile_write ''OK''
       (end_headers
         (send_header ''Content-Type'' ''text/plain''
           (send_response srv req 200 r)))"

text \<open>The \<^verbatim>\<open>do_\<close> methods a \<^verbatim>\<open>HealthHandler\<close> has: the class defines one.\<close>

definition HealthHandler_methods ::
  "(string \<times> (server_env \<Rightarrow> http_request \<Rightarrow> reply \<Rightarrow> reply)) list" where
  "HealthHandler_methods = [(''do_GET'', do_GET)]"

text \<open>
  The dispatch of \<^verbatim>\<open>BaseHTTPRequestHandler.handle_one_request\<close> once the request is
  parsed: \<^verbatim>\<open>mname = 'do_' + self.command\<close>, then 501 when the handler has no attribute
  of that name, the method otherwise.
\<close>

definition handle_one_request :: "server_env \<Rightarrow> http_request \<Rightarrow> reply" where
  "handle_one_request srv req =
     (case map_of HealthHandler_methods (''do_'' @ command req) of
        None \<Rightarrow> send_error srv req 501 empty_reply
      | Some method \<Rightarrow> method srv req empty_reply)"

subsection \<open>Test doubles\<close>

text \<open>
  A mocked backend gives one answer to every request. On a path that formats no
  value other than a \<^verbatim>\<open>str\<close> the rendering of other values is not consulted, and a
  closed example may pass one that yields the empty text.
\<close>

definition mock_backend :: "post_outcome \<Rightarrow> backend" where
  "mock_backend outcome req = outcome"

definition str_unused :: "json \<Rightarrow> string" where
  "str_unused v = []"

section \<open>Properties of the retrieval tool\<close>

subsection \<open>Effects of a call\<close>

text \<open>Every path through \<^verbatim>\<open>lookup_lore\<close> calls \<^verbatim>\<open>session.post\<close> once, with the same arguments.\<close>

lemma sent_lookup_lore:
  "sent (snd (snd (lookup_lore py_str backend self query mode w))) =
     sent w @ [post_args self query (param mode ''S1'')]"
  by (simp add: lookup_lore_def lookup_lore_try_def logger_info_def logger_error_def Let_def
           split: post_outcome.split sum.split)

text \<open>No path assigns to an attribute of the tool.\<close>

lemma self_lookup_lore:
  "fst (snd (lookup_lore py_str backend self query mode w)) = self"
  by (simp add: lookup_lore_def Let_def split: prod.split sum.split)

text \<open>The text returned does not depend on what was logged or sent before.\<close>

lemma result_lookup_lore_world:
  "fst (lookup_lore py_str backend self query mode w) =
   fst (lookup_lore py_str backend self query mode w')"
  by (simp add: lookup_lore_def lookup_lore_try_def logger_info_def logger_error_def Let_def
           split: post_outcome.split sum.split)

text \<open>
  The backend enters the result only through what it answers to the request sent.
\<close>

lemma result_lookup_lore_backend:
  assumes "backend (post_args self query (param mode ''S1'')) =
           backend' (post_args self query (param mode ''S1''))"
  shows "fst (lookup_lore py_str backend self query mode w) =
         fst (lookup_lore py_str backend' self query mode w)"
  using assms
  by (simp add: lookup_lore_def lookup_lore_try_def logger_info_def logger_error_def Let_def
           split: post_outcome.split sum.split)

text \<open>
  The block under \<^verbatim>\<open>try\<close> raises in exactly four situations: the call of
  \<^verbatim>\<open>session.post\<close> raises; the status is not 200 and reading the text raises; the
  status is 200 and decoding the JSON raises; the status is 200 and the decoded
  value is not a dict.
\<close>

lemma lookup_lore_try_raises_iff:
  "lookup_lore_try py_str backend self query spoiler_mode w = (Inl e, w1) \<longleftrightarrow>
     w1 = w\<lparr>sent := sent w @ [post_args self query spoiler_mode]\<rparr> \<and>
     (backend (post_args self query spoiler_mode) = PostRaises e \<or>
      (\<exists>resp. backend (post_args self query spoiler_mode) = Responds resp \<and>
         (if resp_status resp \<noteq> 200 then resp_text resp = Inl e
          else resp_json resp = Inl e \<or>
               (\<exists>data. resp_json resp = Inr data \<and>
                       dict_get data ''context'' (JString []) = Inl e))))"
  by (auto simp: lookup_lore_try_def logger_error_def Let_def
           split: post_outcome.splits sum.splits if_splits)

subsection \<open>Outcomes\<close>

text \<open>
  C1. Whatever the arguments and whatever the backend does (an error status, a
  failed connection, a timeout, a body that cannot be decoded), \<^verbatim>\<open>lookup_lore\<close>
  returns a text and raises nothing to its caller. When the block under \<^verbatim>\<open>try\<close>
  raises an exception, the text is exactly "A disturbance in the Mesh prevents me
  from accessing the archives." and the exception is logged at level ERROR; so it
  is when \<^verbatim>\<open>session.post\<close> raises, as it does for a failed connection or a timeout.
\<close>

theorem lookup_lore_never_raises:
  "(\<exists>text. fst (lookup_lore py_str backend self query mode w) = Inr text) \<and>
   (\<forall>e w1.
      lookup_lore_try py_str backend self query (param mode ''S1'')
        (logger_info (''Looking up lore: '' @ query @ '' [Mode: '' @ param mode ''S1'' @ '']'') w)
        = (Inl e, w1) \<longrightarrow>
      lookup_lore py_str backend self query mode w =
        (Inr ''A disturbance in the Mesh prevents me from accessing the archives.'', self,
         w1\<lparr>logged := logged w1 @ [(ERROR, ''Failed to query RAG API: '' @ exn_str e)]\<rparr>)) \<and>
   (\<forall>e. backend (post_args self query (param mode ''S1'')) = PostRaises e \<longrightarrow>
      lookup_lore py_str backend self query mode w =
        (Inr ''A disturbance in the Mesh prevents me from accessing the archives.'', self,
         \<lparr>logged = logged w @
            [(INFO, ''Looking up lore: '' @ query @ '' [Mode: '' @ param mode ''S1'' @ '']''),
             (ERROR, ''Failed to query RAG API: '' @ exn_str e)],
          sent = sent w @ [post_args self query (param mode ''S1'')]\<rparr>))"
proof (intro conjI allI impI)
  show "\<exists>text. fst (lookup_lore py_str backend self query mode w) = Inr text"
    by (cases "lookup_lore_try py_str backend self query (param mode ''S1'')
        (logger_info (''Looking up lore: '' @ query @ '' [Mode: '' @ param mode ''S1'' @ '']'') w)")
       (simp add: lookup_lore_def Let_def split: sum.split)
next
  fix e w1
  assume "lookup_lore_try py_str backend self query (param mode ''S1'')
        (logger_info (''Looking up lore: '' @ query @ '' [Mode: '' @ param mode ''S1'' @ '']'') w)
        = (Inl e, w1)"
  then show "lookup_lore py_str backend self query mode w =
        (Inr ''A disturbance in the Mesh prevents me from accessing the archives.'', self,
         w1\<lparr>logged := logged w1 @ [(ERROR, ''Failed to query RAG API: '' @ exn_str e)]\<rparr>)"
    by (simp add: lookup_lore_def logger_error_def Let_def)
next
  fix e
  assume "backend (post_args self query (param mode ''S1'')) = PostRaises e"
  then show "lookup_lore py_str backend self query mode w =
        (Inr ''A disturbance in the Mesh prevents me from accessing the archives.'', self,
         \<lparr>logged = logged w @
            [(INFO, ''Looking up lore: '' @ query @ '' [Mode: '' @ param mode ''S1'' @ '']''),
             (ERROR, ''Failed to query RAG API: '' @ exn_str e)],
          sent = sent w @ [post_args self query (param mode ''S1'')]\<rparr>)"
    by (simp add: lookup_lore_def lookup_lore_try_def logger_info_def logger_error_def Let_def)
qed

theorem lookup_lore_never_raises_witness:
  "lookup_lore (\<lambda>v. []) (\<lambda>req. PostRaises (Exn ''TimeoutError'' []))
     \<lparr>api_url = ''http://localhost:3000/api/internal/rag'', api_secret = Some ''k3y''\<rparr>
     ''Who is the protagonist?'' None \<lparr>logged = [], sent = []\<rparr> =
   (Inr ''A disturbance in the Mesh prevents me from accessing the archives.'',
    \<lparr>api_url = ''http://localhost:3000/api/internal/rag'', api_secret = Some ''k3y''\<rparr>,
    \<lparr>logged = [(INFO, ''Looking up lore: Who is the protagonist? [Mode: S1]''),
               (ERROR, ''Failed to query RAG API: '')],
     sent = [\<lparr>http_method = ''POST'', url = ''http://localhost:3000/api/internal/rag'',
              json_body = JObject [(''query'', JString ''Who is the protagonist?''),
                                   (''spoilerMode'', JString ''S1'')],
              headers = [(''Authorization'', ''Bearer k3y'')], timeout = 5\<rparr>]\<rparr>)"
proof -
  let ?tool = "\<lparr>api_url = ''http://localhost:3000/api/internal/rag'', api_secret = Some ''k3y''\<rparr>"
  let ?w = "\<lparr>logged = [], sent = []\<rparr>"
  have raised:
    "lookup_lore_try (\<lambda>v. []) (\<lambda>req. PostRaises (Exn ''TimeoutError'' [])) ?tool
       ''Who is the protagonist?'' (param None ''S1'')
       (logger_info (''Looking up lore: '' @ ''Who is the protagonist?'' @ '' [Mode: '' @
                     param None ''S1'' @ '']'') ?w) =
     (Inl (Exn ''TimeoutError'' []),
      \<lparr>logged = [(INFO, ''Looking up lore: Who is the protagonist? [Mode: S1]'')],
       sent = [post_args ?tool ''Who is the protagonist?'' ''S1'']\<rparr>)"
    by (simp add: lookup_lore_try_def logger_info_def param_def)
  have posted:
    "(\<lambda>req. PostRaises (Exn ''TimeoutError'' []))
       (post_args ?tool ''Who is the protagonist?'' (param None ''S1'')) =
     PostRaises (Exn ''TimeoutError'' [])"
    by simp
  from lookup_lore_never_raises
         [of "\<lambda>v. []" "\<lambda>req. PostRaises (Exn ''TimeoutError'' [])" ?tool
             "''Who is the protagonist?''" None ?w]
  show ?thesis
    using raised posted by (simp add: post_args_def param_def)
qed

text \<open>
  C2. When the backend answers the request with status 200 and a JSON object whose
  field "context" is a non-empty text \<open>c\<close>, the result is "FOUND ARCHIVE RECORDS:",
  a newline, then \<open>c\<close>.
\<close>

theorem lookup_lore_found:
  assumes "backend (post_args self query (param mode ''S1'')) = Responds resp"
    and "resp_status resp = 200"
    and "resp_json resp = Inr (JObject kvs)"
    and "map_of kvs ''context'' = Some (JString c)"
    and "c \<noteq> []"
  shows "fst (lookup_lore py_str backend self query mode w) =
           Inr (''FOUND ARCHIVE RECORDS:'' @ [CHR 0x0A] @ c)"
  using assms by (simp add: lookup_lore_def lookup_lore_try_def Let_def)

theorem lookup_lore_found_witness:
  "fst (lookup_lore (\<lambda>v. [])
         (\<lambda>req. Responds \<lparr>resp_status = 200,
                          resp_text = Inr [],
                          resp_json = Inr (JObject [(''context'', JString ''Ashen King died in Act 2'')])\<rparr>)
         \<lparr>api_url = ''http://localhost:3000/api/internal/rag'', api_secret = Some ''k3y''\<rparr>
         ''How did the Ashen King die?'' None \<lparr>logged = [], sent = []\<rparr>) =
   Inr (''FOUND ARCHIVE RECORDS:'' @ [CHR 0x0A] @ ''Ashen King died in Act 2'')"
  using lookup_lore_found
          [of "\<lambda>req. Responds \<lparr>resp_status = 200,
                          resp_text = Inr [],
                          resp_json = Inr (JObject [(''context'', JString ''Ashen King died in Act 2'')])\<rparr>"
              "\<lparr>api_url = ''http://localhost:3000/api/internal/rag'', api_secret = Some ''k3y''\<rparr>"
              "''How did the Ashen King die?''" None _
              "[(''context'', JString ''Ashen King died in Act 2'')]" "''Ashen King died in Act 2''"
              "\<lambda>v. []" "\<lparr>logged = [], sent = []\<rparr>"]
  by simp

text \<open>
  C3. When the backend answers with status 200 and a JSON object in which the field
  "context" is missing or is the empty text, the result is exactly "The archives
  are silent on this matter. I find no records matching your query."
\<close>

theorem lookup_lore_silent:
  assumes "backend (post_args self query (param mode ''S1'')) = Responds resp"
    and "resp_status resp = 200"
    and "resp_json resp = Inr (JObject kvs)"
    and "map_of kvs ''context'' = None \<or> map_of kvs ''context'' = Some (JString [])"
  shows "fst (lookup_lore py_str backend self query mode w) =
           Inr ''The archives are silent on this matter. I find no records matching your query.''"
  using assms by (auto simp add: lookup_lore_def lookup_lore_try_def Let_def)

theorem lookup_lore_silent_witness:
  "fst (lookup_lore (\<lambda>v. [])
         (\<lambda>req. Responds \<lparr>resp_status = 200, resp_text = Inr [],
                          resp_json = Inr (JObject [(''context'', JString [])])\<rparr>)
         \<lparr>api_url = ''http://localhost:3000/api/internal/rag'', api_secret = Some ''k3y''\<rparr>
         ''Who forged the Mesh?'' (Some ''S2'') \<lparr>logged = [], sent = []\<rparr>) =
   Inr ''The archives are silent on this matter. I find no records matching your query.''"
  using lookup_lore_silent
          [of "\<lambda>req. Responds \<lparr>resp_status = 200, resp_text = Inr [],
                          resp_json = Inr (JObject [(''context'', JString [])])\<rparr>"
              "\<lparr>api_url = ''http://localhost:3000/api/internal/rag'', api_secret = Some ''k3y''\<rparr>"
              "''Who forged the Mesh?''" "Some ''S2''" _
              "[(''context'', JString [])]"
              "\<lambda>v. []" "\<lparr>logged = [], sent = []\<rparr>"]
  by simp

text \<open>
  C4, as the code has it. When the backend answers with a status other than 200
  and its body reads as the text \<open>error_text\<close>, the result is exactly "I cannot
  access the archives at this moment. My connection is hazy." and the call logs,
  at level ERROR, the status and the body. The body is read inside \<^verbatim>\<open>try\<close>, before
  the log record and the \<^verbatim>\<open>return\<close>, so the statement needs the read to succeed.
\<close>

theorem lookup_lore_http_error:
  assumes "backend (post_args self query (param mode ''S1'')) = Responds resp"
    and "resp_status resp \<noteq> 200"
    and "resp_text resp = Inr error_text"
  shows "fst (lookup_lore py_str backend self query mode w) =
           Inr ''I cannot access the archives at this moment. My connection is hazy.'' \<and>
         logged (snd (snd (lookup_lore py_str backend self query mode w))) =
           logged w @
           [(INFO, ''Looking up lore: '' @ query @ '' [Mode: '' @ param mode ''S1'' @ '']''),
            (ERROR, ''RAG API Error ('' @ str_int (resp_status resp) @ ''): '' @ error_text)]"
  using assms
  by (simp add: lookup_lore_def lookup_lore_try_def logger_info_def logger_error_def Let_def)

theorem lookup_lore_http_error_witness:
  "lookup_lore (\<lambda>v. [])
     (\<lambda>req. Responds \<lparr>resp_status = 500, resp_text = Inr ''Internal Server Error'',
                      resp_json = Inl (Exn ''ContentTypeError'' ''unexpected mimetype'')\<rparr>)
     \<lparr>api_url = ''http://localhost:3000/api/internal/rag'', api_secret = Some ''k3y''\<rparr>
     ''Who forged the Mesh?'' None \<lparr>logged = [], sent = []\<rparr> =
   (Inr ''I cannot access the archives at this moment. My connection is hazy.'',
    \<lparr>api_url = ''http://localhost:3000/api/internal/rag'', api_secret = Some ''k3y''\<rparr>,
    \<lparr>logged = [(INFO, ''Looking up lore: Who forged the Mesh? [Mode: S1]''),
               (ERROR, ''RAG API Error (500): Internal Server Error'')],
     sent = [\<lparr>http_method = ''POST'', url = ''http://localhost:3000/api/internal/rag'',
              json_body = JObject [(''query'', JString ''Who forged the Mesh?''),
                                   (''spoilerMode'', JString ''S1'')],
              headers = [(''Authorization'', ''Bearer k3y'')], timeout = 5\<rparr>]\<rparr>)"
proof -
  let ?b = "\<lambda>req::request. Responds \<lparr>resp_status = 500, resp_text = Inr ''Internal Server Error'',
                      resp_json = Inl (Exn ''ContentTypeError'' ''unexpected mimetype'')\<rparr>"
  let ?tool = "\<lparr>api_url = ''http://localhost:3000/api/internal/rag'', api_secret = Some ''k3y''\<rparr>"
  let ?r = "lookup_lore (\<lambda>v. []) ?b ?tool ''Who forged the Mesh?'' None \<lparr>logged = [], sent = []\<rparr>"
  have "fst ?r = Inr ''I cannot access the archives at this moment. My connection is hazy.'' \<and>
        logged (snd (snd ?r)) =
          [(INFO, ''Looking up lore: Who forged the Mesh? [Mode: S1]''),
           (ERROR, ''RAG API Error (500): Internal Server Error'')]"
    using lookup_lore_http_error
            [of ?b ?tool "''Who forged the Mesh?''" None _ "''Internal Server Error''"
                "\<lambda>v. []" "\<lparr>logged = [], sent = []\<rparr>"]
    by (simp add: param_def str_int_def)
  moreover have "fst (snd ?r) = ?tool"
    by (rule self_lookup_lore)
  moreover have "sent (snd (snd ?r)) =
     [\<lparr>http_method = ''POST'', url = ''http://localhost:3000/api/internal/rag'',
              json_body = JObject [(''query'', JString ''Who forged the Mesh?''),
                                   (''spoilerMode'', JString ''S1'')],
              headers = [(''Authorization'', ''Bearer k3y'')], timeout = 5\<rparr>]"
    by (simp add: sent_lookup_lore post_args_def param_def)
  ultimately show ?thesis
    by (cases ?r) (auto simp: world.equality)
qed

text \<open>
  For every status other than 200 the statement fails: at a reply with status 500
  whose body breaks off while it is read, \<^verbatim>\<open>response.text()\<close> raises, the handler
  returns the disturbance text, and the log holds the exception and neither the
  status nor a body.
\<close>

theorem lookup_lore_http_error_counterexample:
  "lookup_lore str_unused
     (mock_backend
        (Responds \<lparr>resp_status = 500,
                   resp_text = Inl (Exn ''ClientPayloadError'' ''Response payload is not completed''),
                   resp_json = Inl (Exn ''ClientPayloadError'' ''Response payload is not completed'')\<rparr>))
     \<lparr>api_url = ''http://localhost:3000/api/internal/rag'', api_secret = Some ''k3y''\<rparr>
     ''Who forged the Mesh?'' None \<lparr>logged = [], sent = []\<rparr> =
   (Inr ''A disturbance in the Mesh prevents me from accessing the archives.'',
    \<lparr>api_url = ''http://localhost:3000/api/internal/rag'', api_secret = Some ''k3y''\<rparr>,
    \<lparr>logged = [(INFO, ''Looking up lore: Who forged the Mesh? [Mode: S1]''),
               (ERROR, ''Failed to query RAG API: Response payload is not completed'')],
     sent = [\<lparr>http_method = ''POST'', url = ''http://localhost:3000/api/internal/rag'',
              json_body = JObject [(''query'', JString ''Who forged the Mesh?''),
                                   (''spoilerMode'', JString ''S1'')],
              headers = [(''Authorization'', ''Bearer k3y'')], timeout = 5\<rparr>]\<rparr>) \<and>
   fst (lookup_lore str_unused
     (mock_backend
        (Responds \<lparr>resp_status = 500,
                   resp_text = Inl (Exn ''ClientPayloadError'' ''Response payload is not completed''),
                   resp_json = Inl (Exn ''ClientPayloadError'' ''Response payload is not completed'')\<rparr>))
     \<lparr>api_url = ''http://localhost:3000/api/internal/rag'', api_secret = Some ''k3y''\<rparr>
     ''Who forged the Mesh?'' None \<lparr>logged = [], sent = []\<rparr>) \<noteq>
   Inr ''I cannot access the archives at this moment. My connection is hazy.''"
  by (simp add: lookup_lore_def lookup_lore_try_def post_args_def param_def mock_backend_def
        logger_info_def logger_error_def)

text \<open>
  C8. Two calls in a row with the same arguments against the same backend return
  the same result: the first call leaves the tool object as it found it, and the
  result of a call does not depend on the log or on the requests sent before.
\<close>

theorem lookup_lore_repeatable:
  assumes "lookup_lore py_str backend self query mode w = (r1, self1, w1)"
    and "lookup_lore py_str backend self1 query mode w1 = (r2, self2, w2)"
  shows "r2 = r1 \<and> self1 = self \<and> self2 = self"
proof -
  have s1: "self1 = self"
    using assms(1) self_lookup_lore [of py_str backend self query mode w] by simp
  have s2: "self2 = self1"
    using assms(2) self_lookup_lore [of py_str backend self1 query mode w1] by simp
  have "r2 = fst (lookup_lore py_str backend self query mode w1)"
    using assms(2) s1 by simp
  also have "\<dots> = fst (lookup_lore py_str backend self query mode w)"
    by (rule result_lookup_lore_world)
  also have "\<dots> = r1"
    using assms(1) by simp
  finally show ?thesis using s1 s2 by simp
qed

theorem lookup_lore_repeatable_witness:
  "lookup_lore (\<lambda>v. [])
     (\<lambda>req. Responds \<lparr>resp_status = 200, resp_text = Inr [],
                      resp_json = Inr (JObject [(''context'', JString ''Ashen King died in Act 2'')])\<rparr>)
     \<lparr>api_url = ''http://localhost:3000/api/internal/rag'', api_secret = None\<rparr>
     ''Ashen King'' (Some ''S3'') \<lparr>logged = [], sent = []\<rparr> =
   (Inr (''FOUND ARCHIVE RECORDS:'' @ [CHR 0x0A] @ ''Ashen King died in Act 2''),
    \<lparr>api_url = ''http://localhost:3000/api/internal/rag'', api_secret = None\<rparr>,
    \<lparr>logged = [(INFO, ''Looking up lore: Ashen King [Mode: S3]'')],
     sent = [post_args \<lparr>api_url = ''http://localhost:3000/api/internal/rag'', api_secret = None\<rparr>
               ''Ashen King'' ''S3'']\<rparr>) \<and>
   fst (lookup_lore (\<lambda>v. [])
     (\<lambda>req. Responds \<lparr>resp_status = 200, resp_text = Inr [],
                      resp_json = Inr (JObject [(''context'', JString ''Ashen King died in Act 2'')])\<rparr>)
     \<lparr>api_url = ''http://localhost:3000/api/internal/rag'', api_secret = None\<rparr>
     ''Ashen King'' (Some ''S3'')
     \<lparr>logged = [(INFO, ''Looking up lore: Ashen King [Mode: S3]'')],
      sent = [post_args \<lparr>api_url = ''http://localhost:3000/api/internal/rag'', api_secret = None\<rparr>
               ''Ashen King'' ''S3'']\<rparr>) =
   Inr (''FOUND ARCHIVE RECORDS:'' @ [CHR 0x0A] @ ''Ashen King died in Act 2'')"
proof -
  let ?b = "\<lambda>req::request. Responds \<lparr>resp_status = 200, resp_text = Inr [],
                      resp_json = Inr (JObject [(''context'', JString ''Ashen King died in Act 2'')])\<rparr>"
  let ?tool = "\<lparr>api_url = ''http://localhost:3000/api/internal/rag'', api_secret = None\<rparr>"
  let ?w1 = "\<lparr>logged = [(INFO, ''Looking up lore: Ashen King [Mode: S3]'')],
              sent = [post_args ?tool ''Ashen King'' ''S3'']\<rparr>"
  let ?r = "Inr (''FOUND ARCHIVE RECORDS:'' @ [CHR 0x0A] @ ''Ashen King died in Act 2'') :: exn + string"
  have first: "lookup_lore (\<lambda>v. []) ?b ?tool ''Ashen King'' (Some ''S3'') \<lparr>logged = [], sent = []\<rparr> =
                 (?r, ?tool, ?w1)"
    by (simp add: lookup_lore_def lookup_lore_try_def logger_info_def param_def)
  obtain r2 self2 w2 where
    second: "lookup_lore (\<lambda>v. []) ?b ?tool ''Ashen King'' (Some ''S3'') ?w1 = (r2, self2, w2)"
    by (cases "lookup_lore (\<lambda>v. []) ?b ?tool ''Ashen King'' (Some ''S3'') ?w1") blast
  from lookup_lore_repeatable [OF first second] have "r2 = ?r" by simp
  with second have "fst (lookup_lore (\<lambda>v. []) ?b ?tool ''Ashen King'' (Some ''S3'') ?w1) = ?r"
    by simp
  with first show ?thesis by simp
qed

subsection \<open>The request sent\<close>

text \<open>
  C6. A call that gives only the query sends a JSON body whose field "spoilerMode"
  is "S1".
\<close>

theorem lookup_lore_default_spoiler_mode:
  "sent (snd (snd (lookup_lore py_str backend self query None w))) =
     sent w @
     [\<lparr> http_method = ''POST'', url = api_url self,
        json_body = JObject [(''query'', JString query), (''spoilerMode'', JString ''S1'')],
        headers = [(''Authorization'', ''Bearer '' @ fmt_opt (api_secret self))],
        timeout = 5 \<rparr>]"
  by (simp add: sent_lookup_lore post_args_def param_def)

theorem lookup_lore_default_spoiler_mode_witness:
  "map json_body
     (sent (snd (snd (lookup_lore (\<lambda>v. []) (\<lambda>req. PostRaises (Exn ''ClientConnectorError'' ''refused''))
        \<lparr>api_url = ''http://localhost:3000/api/internal/rag'', api_secret = Some ''k3y''\<rparr>
        ''Who is the protagonist?'' None \<lparr>logged = [], sent = []\<rparr>)))) =
   [JObject [(''query'', JString ''Who is the protagonist?''), (''spoilerMode'', JString ''S1'')]]"
  using lookup_lore_default_spoiler_mode
          [of "\<lambda>v. []" "\<lambda>req. PostRaises (Exn ''ClientConnectorError'' ''refused'')"
              "\<lparr>api_url = ''http://localhost:3000/api/internal/rag'', api_secret = Some ''k3y''\<rparr>"
              "''Who is the protagonist?''" "\<lparr>logged = [], sent = []\<rparr>"]
  by simp

text \<open>
  C7. Every call of \<^verbatim>\<open>lookup_lore\<close> on a tool built from the environment makes exactly
  one POST: to the URL in INTERNAL_API_URL, or to
  http://localhost:3000/api/internal/rag when the variable is unset; with the JSON
  body of the two fields "query" and "spoilerMode"; with the one header
  Authorization, "Bearer " followed by the text of INTERNAL_API_SECRET; and with
  a timeout of 5 seconds.
\<close>

theorem lookup_lore_one_post:
  "sent (snd (snd (lookup_lore py_str backend (LoreTool_init env) query mode w))) =
     sent w @
     [\<lparr> http_method = ''POST'',
        url = (case env ''INTERNAL_API_URL'' of
                 None \<Rightarrow> ''http://localhost:3000/api/internal/rag'' | Some u \<Rightarrow> u),
        json_body = JObject [(''query'', JString query),
                             (''spoilerMode'', JString (case mode of None \<Rightarrow> ''S1'' | Some m \<Rightarrow> m))],
        headers = [(''Authorization'',
                    ''Bearer '' @ (case env ''INTERNAL_API_SECRET'' of
                                     None \<Rightarrow> ''None'' | Some secret \<Rightarrow> secret))],
        timeout = 5 \<rparr>]"
  by (simp add: sent_lookup_lore post_args_def param_def LoreTool_init_def getenv_def
        getenv_default_def split: option.split)

theorem lookup_lore_one_post_witness:
  "sent (snd (snd (lookup_lore (\<lambda>v. []) (\<lambda>req. PostRaises (Exn ''ClientConnectorError'' ''refused''))
        (LoreTool_init [''INTERNAL_API_URL'' \<mapsto> ''https://site.example/api/internal/rag'',
                        ''INTERNAL_API_SECRET'' \<mapsto> ''k3y''])
        ''Who is the protagonist?'' (Some ''S2'') \<lparr>logged = [], sent = []\<rparr>))) =
   [\<lparr>http_method = ''POST'', url = ''https://site.example/api/internal/rag'',
     json_body = JObject [(''query'', JString ''Who is the protagonist?''),
                          (''spoilerMode'', JString ''S2'')],
     headers = [(''Authorization'', ''Bearer k3y'')], timeout = 5\<rparr>]"
  using lookup_lore_one_post
          [of "\<lambda>v. []" "\<lambda>req. PostRaises (Exn ''ClientConnectorError'' ''refused'')"
              "[''INTERNAL_API_URL'' \<mapsto> ''https://site.example/api/internal/rag'',
                ''INTERNAL_API_SECRET'' \<mapsto> ''k3y'']"
              "''Who is the protagonist?''" "Some ''S2''" "\<lparr>logged = [], sent = []\<rparr>"]
  by simp

text \<open>
  C9. When INTERNAL_API_SECRET is unset the tool is built all the same, the call
  sends its request and returns a text, and the header Authorization of the
  request is the literal "Bearer None".
\<close>

theorem lookup_lore_secret_unset:
  assumes "env ''INTERNAL_API_SECRET'' = None"
  shows "api_secret (LoreTool_init env) = None \<and>
         (\<exists>text. fst (lookup_lore py_str backend (LoreTool_init env) query mode w) = Inr text) \<and>
         map headers (sent (snd (snd (lookup_lore py_str backend (LoreTool_init env) query mode w)))) =
           map headers (sent w) @ [[(''Authorization'', ''Bearer None'')]]"
proof (intro conjI)
  show "api_secret (LoreTool_init env) = None"
    using assms by (simp add: LoreTool_init_def getenv_def)
  then show "map headers (sent (snd (snd (lookup_lore py_str backend (LoreTool_init env) query mode w)))) =
           map headers (sent w) @ [[(''Authorization'', ''Bearer None'')]]"
    by (simp add: sent_lookup_lore post_args_def)
  show "\<exists>text. fst (lookup_lore py_str backend (LoreTool_init env) query mode w) = Inr text"
    by (cases "lookup_lore_try py_str backend (LoreTool_init env) query (param mode ''S1'')
        (logger_info (''Looking up lore: '' @ query @ '' [Mode: '' @ param mode ''S1'' @ '']'') w)")
       (simp add: lookup_lore_def Let_def split: sum.split)
qed

theorem lookup_lore_secret_unset_witness:
  "map headers
     (sent (snd (snd (lookup_lore (\<lambda>v. []) (\<lambda>req. PostRaises (Exn ''ClientConnectorError'' ''refused''))
        (LoreTool_init Map.empty) ''Who is the protagonist?'' None \<lparr>logged = [], sent = []\<rparr>)))) =
   [[(''Authorization'', ''Bearer None'')]]"
  using lookup_lore_secret_unset
          [of Map.empty "\<lambda>v. []" "\<lambda>req. PostRaises (Exn ''ClientConnectorError'' ''refused'')"
              "''Who is the protagonist?''" None "\<lparr>logged = [], sent = []\<rparr>"]
  by simp

text \<open>
  C10. For every text \<open>s\<close> given as \<^verbatim>\<open>spoiler_mode\<close>, inside the enumeration S1, S2, S3
  or not, the call sends its request, and the field "spoilerMode" of the body is
  \<open>s\<close> unchanged.
\<close>

theorem lookup_lore_forwards_spoiler_mode:
  "map json_body (sent (snd (snd (lookup_lore py_str backend self query (Some s) w)))) =
     map json_body (sent w) @ [JObject [(''query'', JString query), (''spoilerMode'', JString s)]]"
  by (simp add: sent_lookup_lore post_args_def param_def)

theorem lookup_lore_forwards_spoiler_mode_witness:
  "map json_body
     (sent (snd (snd (lookup_lore (\<lambda>v. []) (\<lambda>req. PostRaises (Exn ''ClientConnectorError'' ''refused''))
        \<lparr>api_url = ''http://localhost:3000/api/internal/rag'', api_secret = Some ''k3y''\<rparr>
        ''Who is the protagonist?'' (Some ''everything, please'') \<lparr>logged = [], sent = []\<rparr>)))) =
   [JObject [(''query'', JString ''Who is the protagonist?''),
             (''spoilerMode'', JString ''everything, please'')]]"
  using lookup_lore_forwards_spoiler_mode
          [of "\<lambda>v. []" "\<lambda>req. PostRaises (Exn ''ClientConnectorError'' ''refused'')"
              "\<lparr>api_url = ''http://localhost:3000/api/internal/rag'', api_secret = Some ''k3y''\<rparr>"
              "''Who is the protagonist?''" "''everything, please''" "\<lparr>logged = [], sent = []\<rparr>"]
  by simp

section \<open>Properties of the liveness responder\<close>

text \<open>
  C5, as the code has it. For every path, a GET request is answered with status
  200, the header Content-Type: text/plain and the body "OK". A request with any
  other method is answered 501 by the base class, since \<^verbatim>\<open>HealthHandler\<close> defines
  \<^verbatim>\<open>do_GET\<close> only.
\<close>

theorem HealthHandler_get_only:
  "(command req = ''GET'' \<longrightarrow>
      reply_status (handle_one_request srv req) = Some 200 \<and>
      reply_headers (handle_one_request srv req) =
        [(''Server'', version_string srv), (''Date'', date_time_string srv),
         (''Content-Type'', ''text/plain'')] \<and>
      reply_body (handle_one_request srv req) = ''OK'') \<and>
   (command req \<noteq> ''GET'' \<longrightarrow> reply_status (handle_one_request srv req) = Some 501)"
  by (simp add: handle_one_request_def HealthHandler_methods_def do_GET_def send_error_def
        send_response_def send_header_def end_headers_def wfile_write_def log_message_def
        empty_reply_def Let_def)

theorem HealthHandler_get_only_witness:
  "handle_one_request
     \<lparr>version_string = ''BaseHTTP/0.6 Python/3.11.4'',
      date_time_string = ''Tue, 03 Nov 2026 10:00:00 GMT'',
      error_content = ''Error response''\<rparr>
     \<lparr>command = ''GET'', path = ''/healthz?probe=1''\<rparr> =
   \<lparr>reply_status = Some 200,
    reply_headers = [(''Server'', ''BaseHTTP/0.6 Python/3.11.4''),
                     (''Date'', ''Tue, 03 Nov 2026 10:00:00 GMT''),
                     (''Content-Type'', ''text/plain'')],
    reply_body = ''OK'', access_log = []\<rparr>"
proof -
  let ?r = "handle_one_request
     \<lparr>version_string = ''BaseHTTP/0.6 Python/3.11.4'',
      date_time_string = ''Tue, 03 Nov 2026 10:00:00 GMT'',
      error_content = ''Error response''\<rparr>
     \<lparr>command = ''GET'', path = ''/healthz?probe=1''\<rparr>"
  have "reply_status ?r = Some 200 \<and>
        reply_headers ?r = [(''Server'', ''BaseHTTP/0.6 Python/3.11.4''),
                     (''Date'', ''Tue, 03 Nov 2026 10:00:00 GMT''),
                     (''Content-Type'', ''text/plain'')] \<and>
        reply_body ?r = ''OK''"
    using HealthHandler_get_only
            [of "\<lparr>command = ''GET'', path = ''/healthz?probe=1''\<rparr>"
                "\<lparr>version_string = ''BaseHTTP/0.6 Python/3.11.4'',
                  date_time_string = ''Tue, 03 Nov 2026 10:00:00 GMT'',
                  error_content = ''Error response''\<rparr>"]
    by simp
  moreover have "access_log ?r = []"
    by (simp add: handle_one_request_def HealthHandler_methods_def do_GET_def
          send_response_def send_header_def end_headers_def wfile_write_def log_message_def
          empty_reply_def)
  ultimately show ?thesis
    by (cases ?r) simp
qed

text \<open>
  The claim for every method fails at a POST of the path "/": the reply has status
  501, an HTML content type, and the error page as its body.
\<close>

theorem HealthHandler_post_counterexample:
  "reply_status
     (handle_one_request
        \<lparr>version_string = ''BaseHTTP/0.6 Python/3.11.4'',
         date_time_string = ''Tue, 03 Nov 2026 10:00:00 GMT'',
         error_content = ''Error response''\<rparr>
        \<lparr>command = ''POST'', path = ''/''\<rparr>) = Some 501 \<and>
   map_of (reply_headers
     (handle_one_request
        \<lparr>version_string = ''BaseHTTP/0.6 Python/3.11.4'',
         date_time_string = ''Tue, 03 Nov 2026 10:00:00 GMT'',
         error_content = ''Error response''\<rparr>
        \<lparr>command = ''POST'', path = ''/''\<rparr>)) ''Content-Type'' = Some ''text/html;charset=utf-8'' \<and>
   reply_body
     (handle_one_request
        \<lparr>version_string = ''BaseHTTP/0.6 Python/3.11.4'',
         date_time_string = ''Tue, 03 Nov 2026 10:00:00 GMT'',
         error_content = ''Error response''\<rparr>
        \<lparr>command = ''POST'', path = ''/''\<rparr>) = ''Error response''"
  by (simp add: handle_one_request_def HealthHandler_methods_def send_error_def
        send_response_def send_header_def end_headers_def wfile_write_def log_message_def
        empty_reply_def Let_def)

end
